theory Spec2Isabelle
  imports Complex_Main "HOL-Library.AList"
begin

section \<open>Python values used by the knowledge base and the health analyzer\<close>

text \<open>
  A Python \<open>str\<close> is modelled as a \<open>string\<close> whose characters are the code points
  below 256. A Python \<open>float\<close> is modelled as a \<open>real\<close>: every finite float is a real
  number and the comparisons of the source are the comparisons of the reals (NaN and the
  infinities are outside the model). A \<open>dict\<close> is an association list in insertion order
  with distinct keys; \<open>k in d\<close> followed by \<open>d[k]\<close> is \<open>map_of d k\<close>.
\<close>

datatype py_error = IndexError | KeyError

type_synonym 'v dict = "(string \<times> 'v) list"

subsection \<open>String methods\<close>

text \<open>The characters for which \<open>str.isspace\<close> holds, among the code points below 256.\<close>

definition whitespace :: "char list" where
  "whitespace = [CHR 0x09, CHR 0x0A, CHR 0x0B, CHR 0x0C, CHR 0x0D,
                 CHR 0x1C, CHR 0x1D, CHR 0x1E, CHR 0x1F, CHR 0x20, CHR 0x85, CHR 0xA0]"

definition isspace :: "char \<Rightarrow> bool" where
  "isspace c = (c \<in> set whitespace)"

text \<open>\<open>s.strip()\<close> and \<open>s.strip(chars)\<close>.\<close>

definition strip_with :: "(char \<Rightarrow> bool) \<Rightarrow> string \<Rightarrow> string" where
  "strip_with p s = rev (dropWhile p (rev (dropWhile p s)))"

definition strip :: "string \<Rightarrow> string" where
  "strip s = strip_with isspace s"


text \<open>
  \<open>s.split(c)\<close> for a separator of one character. The result is never the empty list
  (lemma \<open>split_sep_nonempty\<close>), so the first case of the inner \<open>case\<close> does not occur.
\<close>

fun split_sep :: "char \<Rightarrow> string \<Rightarrow> string list" where
  "split_sep c [] = [[]]"
| "split_sep c (x # xs) =
     (if x = c then [] # split_sep c xs
      else (case split_sep c xs of
              [] \<Rightarrow> [[x]]
            | part # parts \<Rightarrow> (x # part) # parts))"


text \<open>
  \<open>s.split()\<close>: the maximal runs of characters that are not whitespace. Where the next
  character is not whitespace the rest has a first word (lemma \<open>split_ws_all_space\<close>), so
  the first case of the innermost \<open>case\<close> does not occur.
\<close>

fun split_ws :: "string \<Rightarrow> string list" where
  "split_ws [] = []"
| "split_ws (x # xs) =
     (if isspace x then split_ws xs
      else (case xs of
              [] \<Rightarrow> [[x]]
            | y # _ \<Rightarrow>
                if isspace y then [x] # split_ws xs
                else (case split_ws xs of
                        [] \<Rightarrow> [[x]]
                      | word # words \<Rightarrow> (x # word) # words)))"

text \<open>\<open>s.lower()\<close> on the code points below 256.\<close>

definition lower_char :: "char \<Rightarrow> char" where
  "lower_char c =
     (let n = (of_char c :: nat)
      in if (65 \<le> n \<and> n \<le> 90) \<or> (192 \<le> n \<and> n \<le> 222 \<and> n \<noteq> 215)
         then char_of (n + 32) else c)"

definition lower :: "string \<Rightarrow> string" where
  "lower s = map lower_char s"

text \<open>\<open>sub in s\<close> for strings: \<open>sub\<close> occurs in \<open>s\<close> as a contiguous piece.\<close>

fun starts_with :: "string \<Rightarrow> string \<Rightarrow> bool" where
  "starts_with s [] = True"
| "starts_with [] (y # ys) = False"
| "starts_with (x # xs) (y # ys) = (x = y \<and> starts_with xs ys)"

fun contains :: "string \<Rightarrow> string \<Rightarrow> bool" where
  "contains [] sub = (sub = [])"
| "contains (x # xs) sub = (starts_with (x # xs) sub \<or> contains xs sub)"

text \<open>
  \<open>xs[i]\<close> for a Python list of length \<open>n\<close>: the indices from \<open>0\<close> to \<open>n - 1\<close> read from
  the front, those from \<open>-n\<close> to \<open>-1\<close> read from the back, every other index raises.
\<close>

definition py_index :: "'a list \<Rightarrow> int \<Rightarrow> py_error + 'a" where
  "py_index xs i =
     (if 0 \<le> i \<and> i < int (length xs) then Inr (xs ! nat i)
      else if i < 0 \<and> - int (length xs) \<le> i then Inr (xs ! nat (int (length xs) + i))
      else Inl IndexError)"

section \<open>knowledge\_base.py\<close>

text \<open>
  An entry of \<open>knowledge_texts\<close> is a dict with the keys \<open>text\<close> and \<open>type\<close> and further
  string-valued keys that depend on the type; a retrieved entry is a copy with the key
  \<open>relevance_score\<close> added.
\<close>

record knowledge_item =
  text_of :: string
  type_of :: string
  tags :: "string dict"

record retrieved_item =
  item :: knowledge_item
  relevance_score :: real

type_synonym vec = "real list"

text \<open>
  The embedding model and the vector index are objects of external libraries. Each is
  represented by the one method the source calls: \<open>encode\<close> on one text, and \<open>search\<close>,
  which for a query vector and \<open>k\<close> gives the row of (score, label) pairs. \<open>None\<close> is the
  attribute before \<open>initialize_embeddings\<close> has set it.
\<close>

record knowledge_base =
  reference_ranges :: "string dict"
  knowledge_texts :: "knowledge_item list"
  embedding_model :: "(string \<Rightarrow> vec) option"
  vector_index :: "(vec \<Rightarrow> int \<Rightarrow> (real \<times> int) list) option"

text \<open>\<open>faiss.normalize_L2\<close> on one row: a row of norm zero is left as it is.\<close>

definition normalize_L2 :: "vec \<Rightarrow> vec" where
  "normalize_L2 v =
     (let n = sqrt (sum_list (map (\<lambda>x. x * x) v))
      in if n > 0 then map (\<lambda>x. x / n) v else v)"

text \<open>The loop of \<open>retrieve_contextual_knowledge\<close> over \<open>zip(scores[0], indices[0])\<close>.\<close>

fun collect_results :: "knowledge_item list \<Rightarrow> (real \<times> int) list \<Rightarrow> py_error + retrieved_item list" where
  "collect_results texts [] = Inr []"
| "collect_results texts ((score, idx) # rest) =
     (if idx < int (length texts) then
        (case py_index texts idx of
           Inl e \<Rightarrow> Inl e
         | Inr it \<Rightarrow>
             (case collect_results texts rest of
                Inl e \<Rightarrow> Inl e
              | Inr rs \<Rightarrow> Inr (\<lparr>item = it, relevance_score = score\<rparr> # rs)))
      else collect_results texts rest)"

definition retrieve_contextual_knowledge ::
  "knowledge_base \<Rightarrow> string \<Rightarrow> int \<Rightarrow> py_error + retrieved_item list" where
  "retrieve_contextual_knowledge kb query top_k =
     (case (vector_index kb, embedding_model kb) of
        (Some search, Some encode) \<Rightarrow>
          collect_results (knowledge_texts kb) (search (normalize_L2 (encode query)) top_k)
      | _ \<Rightarrow> Inr [])"

text \<open>
  The row that \<open>faiss.IndexFlatIP.search\<close> gives for one query over the stored vectors
  \<open>xb\<close>, as the library documents it: the \<open>k\<close> largest inner products with the positions
  of their vectors, best first; when \<open>k\<close> exceeds the number of stored vectors the
  remaining places of the row hold the label \<open>-1\<close> and the lowest float32 as score.
  The model is meant for \<open>k \<ge> 1\<close> (the library refuses any other \<open>k\<close>); it takes
  the scores as exact numbers and keeps vectors of equal score in their stored order.
\<close>

definition inner_product :: "vec \<Rightarrow> vec \<Rightarrow> real" where
  "inner_product a b = sum_list (map2 (*) a b)"

definition float32_lowest :: real where
  "float32_lowest = - 340282346638528859811704183484516925440"

definition index_flat_ip_search :: "vec list \<Rightarrow> vec \<Rightarrow> int \<Rightarrow> (real \<times> int) list" where
  "index_flat_ip_search xb q k =
     (let scored = map (\<lambda>(i, x). (inner_product q x, int i)) (enumerate 0 xb);
          ranked = sort_key (\<lambda>(s, i). - s) scored
      in take (nat k) ranked @ replicate (nat k - length xb) (float32_lowest, - 1))"

definition get_biomarker_reference_range :: "knowledge_base \<Rightarrow> string \<Rightarrow> string option" where
  "get_biomarker_reference_range kb biomarker = map_of (reference_ranges kb) biomarker"

text \<open>
  \<open>_parse_reference_ranges\<close>. The body of its loop makes one assignment
  \<open>self.reference_ranges[key] = value\<close> for a line that holds a colon and a double quote,
  and nothing for any other line; \<open>reference_line_entry\<close> is the pair that a line assigns.
  \<open>line.split(':', 1)\<close> has two parts whenever the line holds a colon.
\<close>

definition dquote :: char where
  "dquote = CHR 0x22"




text \<open>
  \<open>_classify_value\<close>. The builtin \<open>float\<close> is the parameter \<open>pyfloat\<close>: \<open>None\<close> where
  \<open>float\<close> raises \<open>ValueError\<close>. Every exception inside the \<open>try\<close> (the \<open>IndexError\<close> of
  an empty token list, the \<open>ValueError\<close> of \<open>float\<close>) is caught by the bare \<open>except\<close> and
  leads to the final \<open>return "Unknown"\<close>, as does a range with other than two parts.
\<close>

definition classify_value :: "(string \<Rightarrow> real option) \<Rightarrow> real \<Rightarrow> string \<Rightarrow> string" where
  "classify_value pyfloat v range_info =
     (if CHR ''<'' \<in> set range_info then
        (case split_ws (split_sep CHR ''<'' range_info ! 1) of
           [] \<Rightarrow> ''Unknown''
         | tok # _ \<Rightarrow>
             (case pyfloat tok of
                None \<Rightarrow> ''Unknown''
              | Some threshold \<Rightarrow> if v \<ge> threshold then ''High'' else ''Normal''))
      else if CHR ''>'' \<in> set range_info then
        (case split_ws (split_sep CHR ''>'' range_info ! 1) of
           [] \<Rightarrow> ''Unknown''
         | tok # _ \<Rightarrow>
             (case pyfloat tok of
                None \<Rightarrow> ''Unknown''
              | Some threshold \<Rightarrow> if v \<le> threshold then ''Low'' else ''Normal''))
      else if CHR ''-'' \<in> set range_info then
        (let parts = split_sep CHR ''-'' range_info
         in if length parts = 2 then
              (case split_ws (parts ! 0) of
                 [] \<Rightarrow> ''Unknown''
               | t0 # ts0 \<Rightarrow>
                   (case pyfloat (last (t0 # ts0)) of
                      None \<Rightarrow> ''Unknown''
                    | Some low \<Rightarrow>
                        (case split_ws (parts ! 1) of
                           [] \<Rightarrow> ''Unknown''
                         | t1 # _ \<Rightarrow>
                             (case pyfloat t1 of
                                None \<Rightarrow> ''Unknown''
                              | Some high \<Rightarrow>
                                  if v < low then ''Low''
                                  else if v > high then ''High''
                                  else ''Normal''))))
            else ''Unknown'')
      else ''Unknown'')"

section \<open>health\_analyzer.py\<close>

text \<open>
  The class \<open>HealthAnalyzer\<close> has the attributes \<open>kb\<close> and \<open>medical_disclaimer\<close>. The
  formatting of a float inside an f-string is the parameter \<open>fmt\<close>.
\<close>

record health_analyzer =
  kb_of :: knowledge_base
  medical_disclaimer :: string

type_synonym knowledge_ctx = "retrieved_item list dict"

definition dict_in :: "string \<Rightarrow> 'v dict \<Rightarrow> bool" where
  "dict_in k d = (map_of d k \<noteq> None)"

text \<open>\<open>d.get(k, [])\<close>.\<close>

definition get_or_empty :: "'a list dict \<Rightarrow> string \<Rightarrow> 'a list" where
  "get_or_empty d k = (case map_of d k of None \<Rightarrow> [] | Some xs \<Rightarrow> xs)"

subsection \<open>Contextual retrieval\<close>

fun retrieve_each ::
  "knowledge_base \<Rightarrow> (real \<Rightarrow> string) \<Rightarrow> real dict \<Rightarrow> knowledge_ctx \<Rightarrow> py_error + knowledge_ctx" where
  "retrieve_each b fmt [] ck = Inr ck"
| "retrieve_each b fmt ((biomarker, v) # rest) ck =
     (case retrieve_contextual_knowledge b
             (biomarker @ '' '' @ fmt v @ '' biomarker analysis'') 3 of
        Inl e \<Rightarrow> Inl e
      | Inr knowledge \<Rightarrow> retrieve_each b fmt rest (AList.update biomarker knowledge ck))"

definition retrieve_context ::
  "health_analyzer \<Rightarrow> (real \<Rightarrow> string) \<Rightarrow> real dict \<Rightarrow> py_error + knowledge_ctx" where
  "retrieve_context h fmt biomarker_data =
     (case retrieve_each (kb_of h) fmt biomarker_data [] of
        Inl e \<Rightarrow> Inl e
      | Inr ck \<Rightarrow>
          (case retrieve_contextual_knowledge (kb_of h)
                  ''health risk assessment biomarker patterns'' 5 of
             Inl e \<Rightarrow> Inl e
           | Inr general_knowledge \<Rightarrow> Inr (AList.update ''general'' general_knowledge ck)))"

subsection \<open>Pillar 1: interpretation of the biomarkers\<close>

record biomarker_entry =
  bm_value :: real
  bm_reference_range :: "string option"
  bm_status :: string
  bm_interpretation :: string
  bm_contextual_insights :: "retrieved_item list"

record pillar1 =
  p1_title :: string
  biomarkers :: "biomarker_entry dict"

definition classify_biomarker_status ::
  "health_analyzer \<Rightarrow> (string \<Rightarrow> real option) \<Rightarrow> string \<Rightarrow> real \<Rightarrow> string option \<Rightarrow> string" where
  "classify_biomarker_status h pyfloat biomarker v reference_range =
     (case reference_range of
        None \<Rightarrow> ''Unknown''
      | Some r \<Rightarrow> if r = [] then ''Unknown'' else classify_value pyfloat v r)"

text \<open>
  The loop of \<open>_generate_biomarker_interpretation\<close> over \<open>knowledge[:2]\<close>;
  \<open>insight['condition']\<close> raises \<open>KeyError\<close> on an entry without that key.
\<close>

fun add_insights :: "string \<Rightarrow> retrieved_item list \<Rightarrow> py_error + string" where
  "add_insights interpretation [] = Inr interpretation"
| "add_insights interpretation (insight # rest) =
     (if type_of (item insight) = ''dataset_insight'' then
        add_insights (interpretation @ '' '' @ text_of (item insight)) rest
      else if type_of (item insight) = ''abnormality_mapping'' then
        (case map_of (tags (item insight)) ''condition'' of
           None \<Rightarrow> Inl KeyError
         | Some c \<Rightarrow>
             add_insights (interpretation @ '' This pattern is associated with '' @ c @ ''.'') rest)
      else add_insights interpretation rest)"

definition generate_biomarker_interpretation ::
  "(real \<Rightarrow> string) \<Rightarrow> string \<Rightarrow> real \<Rightarrow> string \<Rightarrow> retrieved_item list \<Rightarrow> py_error + string" where
  "generate_biomarker_interpretation fmt biomarker v status knowledge =
     add_insights
       (''Your '' @ biomarker @ '' level is '' @ fmt v @ '', which is classified as '' @ status @ ''.'')
       (take 2 knowledge)"

fun analyze_each ::
  "health_analyzer \<Rightarrow> (real \<Rightarrow> string) \<Rightarrow> (string \<Rightarrow> real option) \<Rightarrow> knowledge_ctx \<Rightarrow>
   real dict \<Rightarrow> biomarker_entry dict \<Rightarrow> py_error + biomarker_entry dict" where
  "analyze_each h fmt pyfloat ck [] acc = Inr acc"
| "analyze_each h fmt pyfloat ck ((biomarker, v) # rest) acc =
     (let reference_range = get_biomarker_reference_range (kb_of h) biomarker;
          status = classify_biomarker_status h pyfloat biomarker v reference_range;
          biomarker_knowledge = get_or_empty ck biomarker
      in case generate_biomarker_interpretation fmt biomarker v status biomarker_knowledge of
           Inl e \<Rightarrow> Inl e
         | Inr interpretation \<Rightarrow>
             analyze_each h fmt pyfloat ck rest
               (AList.update biomarker
                  \<lparr>bm_value = v, bm_reference_range = reference_range, bm_status = status,
                   bm_interpretation = interpretation,
                   bm_contextual_insights = biomarker_knowledge\<rparr> acc))"

definition analyze_biomarkers ::
  "health_analyzer \<Rightarrow> (real \<Rightarrow> string) \<Rightarrow> (string \<Rightarrow> real option) \<Rightarrow> real dict \<Rightarrow>
   knowledge_ctx \<Rightarrow> py_error + pillar1" where
  "analyze_biomarkers h fmt pyfloat biomarker_data ck =
     (case analyze_each h fmt pyfloat ck biomarker_data [] of
        Inl e \<Rightarrow> Inl e
      | Inr bs \<Rightarrow> Inr \<lparr>p1_title = ''Interpretation of Key Biomarkers'', biomarkers = bs\<rparr>)"

subsection \<open>Pillar 2: symptoms and biomarkers\<close>

text \<open>
  The result of \<open>_analyze_symptoms\<close> is a dict with the key \<open>symptoms_provided\<close> and, when
  symptoms were provided, the keys \<open>raw_symptoms\<close> and \<open>detected_categories\<close>.
\<close>

record symptom_analysis =
  symptoms_provided :: bool
  raw_symptoms :: "string option"
  detected_categories :: "string list option"

definition common_symptoms :: "string list dict" where
  "common_symptoms =
     [(''fatigue'', [''tired'', ''fatigue'', ''exhausted'', ''weak'']),
      (''weight_changes'', [''weight'', ''gain'', ''loss'', ''obese'']),
      (''mood_changes'', [''depressed'', ''anxious'', ''mood'', ''irritable'']),
      (''digestive_issues'', [''nausea'', ''vomiting'', ''diarrhea'', ''constipation'']),
      (''cardiovascular'', [''chest'', ''pain'', ''heart'', ''palpitations'']),
      (''neurological'', [''headache'', ''dizziness'', ''confusion'', ''memory''])]"

text \<open>
  The source binds \<open>symptoms = user_symptoms.lower().split()\<close> and then tests each keyword
  with \<open>symptom in user_symptoms.lower()\<close>, on the text and not on \<open>symptoms\<close>.
\<close>

definition analyze_symptoms :: "string \<Rightarrow> symptom_analysis" where
  "analyze_symptoms user_symptoms =
     (if strip user_symptoms = [] then
        \<lparr>symptoms_provided = False, raw_symptoms = None, detected_categories = None\<rparr>
      else
        (let symptoms = split_ws (lower user_symptoms);
             detected_symptoms =
               map fst (filter (\<lambda>(category, symptom_list).
                                   list_ex (\<lambda>symptom. contains (lower user_symptoms) symptom)
                                     symptom_list)
                               common_symptoms)
         in \<lparr>symptoms_provided = True, raw_symptoms = Some user_symptoms,
             detected_categories = Some detected_symptoms\<rparr>))"

record correlation =
  c_biomarker :: string
  c_value :: real
  correlated_symptoms :: "string list"
  explanation :: string

definition correlations_table :: "string list dict" where
  "correlations_table =
     [(''tsh'', [''fatigue'', ''weight_changes'', ''mood_changes'']),
      (''glucose'', [''fatigue'', ''weight_changes'', ''digestive_issues'']),
      (''hba1c'', [''fatigue'', ''weight_changes'']),
      (''total_cholesterol'', [''cardiovascular'']),
      (''ldl'', [''cardiovascular'']),
      (''crp'', [''fatigue'', ''cardiovascular''])]"

text \<open>\<open>sep.join(xs)\<close>.\<close>

fun join :: "string \<Rightarrow> string list \<Rightarrow> string" where
  "join sep [] = []"
| "join sep [x] = x"
| "join sep (x # y # ys) = x @ sep @ join sep (y # ys)"

definition find_symptom_biomarker_correlation ::
  "(real \<Rightarrow> string) \<Rightarrow> string \<Rightarrow> real \<Rightarrow> string \<Rightarrow> retrieved_item list \<Rightarrow>
   py_error + correlation option" where
  "find_symptom_biomarker_correlation fmt biomarker v user_symptoms knowledge =
     (case map_of correlations_table biomarker of
        None \<Rightarrow> Inr None
      | Some categories \<Rightarrow>
          (case detected_categories (analyze_symptoms user_symptoms) of
             None \<Rightarrow> Inl KeyError
           | Some symptom_categories \<Rightarrow>
               (let matching_symptoms = filter (\<lambda>cat. cat \<in> set categories) symptom_categories
                in if matching_symptoms \<noteq> [] then
                     Inr (Some \<lparr>c_biomarker = biomarker, c_value = v,
                                correlated_symptoms = matching_symptoms,
                                explanation =
                                  ''Your '' @ biomarker @ '' level of '' @ fmt v
                                  @ '' may be related to your reported symptoms: ''
                                  @ join '', '' matching_symptoms\<rparr>)
                   else Inr None)))"

record pillar2 =
  p2_title :: string
  correlations :: "correlation list"
  p2_symptom_analysis :: symptom_analysis
  p2_note :: "string option"

fun correlate_each ::
  "(real \<Rightarrow> string) \<Rightarrow> string \<Rightarrow> knowledge_ctx \<Rightarrow> real dict \<Rightarrow> correlation list \<Rightarrow>
   py_error + correlation list" where
  "correlate_each fmt user_symptoms ck [] acc = Inr acc"
| "correlate_each fmt user_symptoms ck ((biomarker, v) # rest) acc =
     (case find_symptom_biomarker_correlation fmt biomarker v user_symptoms
             (get_or_empty ck biomarker) of
        Inl e \<Rightarrow> Inl e
      | Inr None \<Rightarrow> correlate_each fmt user_symptoms ck rest acc
      | Inr (Some c) \<Rightarrow> correlate_each fmt user_symptoms ck rest (acc @ [c]))"

definition correlate_symptoms_biomarkers ::
  "(real \<Rightarrow> string) \<Rightarrow> real dict \<Rightarrow> string \<Rightarrow> knowledge_ctx \<Rightarrow> py_error + pillar2" where
  "correlate_symptoms_biomarkers fmt biomarker_data user_symptoms ck =
     (let analysis =
            \<lparr>p2_title = ''Correlation Between Symptoms and Biomarker Trends'',
             correlations = [],
             p2_symptom_analysis = analyze_symptoms user_symptoms,
             p2_note = None\<rparr>
      in if strip user_symptoms = [] then
           Inr (analysis\<lparr>p2_note := Some ''No symptoms provided for correlation analysis''\<rparr>)
         else
           (case correlate_each fmt user_symptoms ck biomarker_data [] of
              Inl e \<Rightarrow> Inl e
            | Inr cs \<Rightarrow> Inr (analysis\<lparr>correlations := cs\<rparr>)))"

subsection \<open>Pillar 3: risk assessors\<close>

record risk =
  condition :: string
  risk_level :: string
  risk_factors :: "string list"
  r_contextual_insights :: "retrieved_item list"

text \<open>
  Each assessor threads the pair \<open>(risk_factors, risk_level)\<close> through its \<open>if\<close>
  statements, in the order of the source.
\<close>

definition assess_diabetes_risk ::
  "(real \<Rightarrow> string) \<Rightarrow> real dict \<Rightarrow> knowledge_ctx \<Rightarrow> risk option" where
  "assess_diabetes_risk fmt biomarker_data ck =
     (let s0 = ([], ''low'');
          s1 = (case map_of biomarker_data ''glucose'' of
                  None \<Rightarrow> s0
                | Some glucose \<Rightarrow>
                    if glucose \<ge> 126 then
                      (fst s0 @ [''Fasting glucose '' @ fmt glucose @ '' mg/dL indicates diabetes''],
                       ''high'')
                    else if glucose \<ge> 100 then
                      (fst s0 @ [''Fasting glucose '' @ fmt glucose @ '' mg/dL indicates prediabetes''],
                       ''moderate'')
                    else s0);
          s2 = (case map_of biomarker_data ''hba1c'' of
                  None \<Rightarrow> s1
                | Some hba1c \<Rightarrow>
                    if hba1c \<ge> 6.5 then
                      (fst s1 @ [''HbA1c '' @ fmt hba1c @ ''% indicates diabetes''], ''high'')
                    else if hba1c \<ge> 5.7 then
                      (fst s1 @ [''HbA1c '' @ fmt hba1c @ ''% indicates prediabetes''], ''moderate'')
                    else s1)
      in if fst s2 \<noteq> [] then
           Some \<lparr>condition = ''Diabetes/Pre-diabetes'', risk_level = snd s2,
                 risk_factors = fst s2,
                 r_contextual_insights = take 2 (get_or_empty ck ''general'')\<rparr>
         else None)"

definition assess_cardiovascular_risk ::
  "(real \<Rightarrow> string) \<Rightarrow> real dict \<Rightarrow> knowledge_ctx \<Rightarrow> risk option" where
  "assess_cardiovascular_risk fmt biomarker_data ck =
     (let s0 = ([], ''low'');
          s1 = (case map_of biomarker_data ''total_cholesterol'' of
                  None \<Rightarrow> s0
                | Some tc \<Rightarrow>
                    if tc \<ge> 240 then
                      (fst s0 @ [''Total cholesterol '' @ fmt tc @ '' mg/dL is high''], ''moderate'')
                    else s0);
          s2 = (case map_of biomarker_data ''ldl'' of
                  None \<Rightarrow> s1
                | Some ldl \<Rightarrow>
                    if ldl \<ge> 160 then
                      (fst s1 @ [''LDL cholesterol '' @ fmt ldl @ '' mg/dL is high''], ''moderate'')
                    else s1);
          s3 = (case map_of biomarker_data ''hdl'' of
                  None \<Rightarrow> s2
                | Some hdl \<Rightarrow>
                    if hdl < 40 then
                      (fst s2 @ [''HDL cholesterol '' @ fmt hdl @ '' mg/dL is low''], ''moderate'')
                    else s2)
      in if fst s3 \<noteq> [] then
           Some \<lparr>condition = ''Cardiovascular Disease'', risk_level = snd s3,
                 risk_factors = fst s3,
                 r_contextual_insights = take 2 (get_or_empty ck ''general'')\<rparr>
         else None)"

definition assess_thyroid_risk ::
  "(real \<Rightarrow> string) \<Rightarrow> real dict \<Rightarrow> knowledge_ctx \<Rightarrow> risk option" where
  "assess_thyroid_risk fmt biomarker_data ck =
     (case map_of biomarker_data ''tsh'' of
        None \<Rightarrow> None
      | Some tsh \<Rightarrow>
          (let s0 = ([], ''low'');
               s1 = (if tsh > 10 then
                       (fst s0 @ [''TSH '' @ fmt tsh @ '' mIU/L indicates overt hypothyroidism''],
                        ''high'')
                     else if tsh > 4.5 then
                       (fst s0 @ [''TSH '' @ fmt tsh @ '' mIU/L indicates subclinical hypothyroidism''],
                        ''moderate'')
                     else if tsh < 0.4 then
                       (fst s0 @ [''TSH '' @ fmt tsh @ '' mIU/L indicates possible hyperthyroidism''],
                        ''moderate'')
                     else s0)
           in if fst s1 \<noteq> [] then
                Some \<lparr>condition = ''Thyroid Dysfunction'', risk_level = snd s1,
                      risk_factors = fst s1,
                      r_contextual_insights = take 2 (get_or_empty ck ''tsh'')\<rparr>
              else None))"

definition assess_inflammation_risk ::
  "(real \<Rightarrow> string) \<Rightarrow> real dict \<Rightarrow> knowledge_ctx \<Rightarrow> risk option" where
  "assess_inflammation_risk fmt biomarker_data ck =
     (let s0 = ([], ''low'');
          s1 = (case map_of biomarker_data ''crp'' of
                  None \<Rightarrow> s0
                | Some crp \<Rightarrow>
                    if crp > 3.0 then
                      (fst s0 @ [''CRP '' @ fmt crp @ '' mg/L indicates elevated inflammation''],
                       ''moderate'')
                    else s0);
          s2 = (case map_of biomarker_data ''esr'' of
                  None \<Rightarrow> s1
                | Some esr \<Rightarrow>
                    if esr > 20 then
                      (fst s1 @ [''ESR '' @ fmt esr @ '' mm/hr indicates elevated inflammation''],
                       ''moderate'')
                    else s1)
      in if fst s2 \<noteq> [] then
           Some \<lparr>condition = ''Inflammation'', risk_level = snd s2,
                 risk_factors = fst s2,
                 r_contextual_insights = take 2 (get_or_empty ck ''general'')\<rparr>
         else None)"

definition calculate_overall_risk_level :: "risk list \<Rightarrow> string" where
  "calculate_overall_risk_level risks =
     (if risks = [] then ''low''
      else (let risk_levels = map risk_level risks
            in if ''high'' \<in> set risk_levels then ''high''
               else if ''moderate'' \<in> set risk_levels then ''moderate''
               else ''low''))"

record pillar3 =
  p3_title :: string
  risk_assessments :: "risk list"
  overall_risk_level :: string

text \<open>\<open>if r: risks.append(r)\<close> for the optional result of an assessor.\<close>

definition append_risk :: "risk list \<Rightarrow> risk option \<Rightarrow> risk list" where
  "append_risk risks r = (case r of None \<Rightarrow> risks | Some x \<Rightarrow> risks @ [x])"

definition generate_predictive_insights ::
  "(real \<Rightarrow> string) \<Rightarrow> real dict \<Rightarrow> knowledge_ctx \<Rightarrow> pillar3" where
  "generate_predictive_insights fmt biomarker_data ck =
     (let r0 = [];
          r1 = (if dict_in ''glucose'' biomarker_data \<or> dict_in ''hba1c'' biomarker_data
                then append_risk r0 (assess_diabetes_risk fmt biomarker_data ck) else r0);
          r2 = (if list_ex (\<lambda>bm. dict_in bm biomarker_data)
                     [''total_cholesterol'', ''ldl'', ''hdl'', ''triglycerides'']
                then append_risk r1 (assess_cardiovascular_risk fmt biomarker_data ck) else r1);
          r3 = (if dict_in ''tsh'' biomarker_data
                then append_risk r2 (assess_thyroid_risk fmt biomarker_data ck) else r2);
          r4 = (if list_ex (\<lambda>bm. dict_in bm biomarker_data) [''crp'', ''esr'']
                then append_risk r3 (assess_inflammation_risk fmt biomarker_data ck) else r3)
      in \<lparr>p3_title = ''Predictive Insights on Potential Health Risks'',
          risk_assessments = r4,
          overall_risk_level = calculate_overall_risk_level r4\<rparr>)"

subsection \<open>Pillar 4: recommendations\<close>

definition critical_thresholds :: "real dict" where
  "critical_thresholds =
     [(''glucose'', 300), (''tsh'', 20), (''creatinine'', 3.0), (''crp'', 10.0)]"

fun identify_critical_findings :: "(real \<Rightarrow> string) \<Rightarrow> real dict \<Rightarrow> string list" where
  "identify_critical_findings fmt [] = []"
| "identify_critical_findings fmt ((biomarker, v) # rest) =
     (case map_of critical_thresholds biomarker of
        None \<Rightarrow> identify_critical_findings fmt rest
      | Some threshold \<Rightarrow>
          if v \<ge> threshold then
            (''CRITICAL: '' @ biomarker @ '' level of '' @ fmt v
               @ '' requires immediate medical attention'')
            # identify_critical_findings fmt rest
          else identify_critical_findings fmt rest)"

definition generate_lifestyle_recommendations ::
  "real dict \<Rightarrow> string \<Rightarrow> knowledge_ctx \<Rightarrow> string list" where
  "generate_lifestyle_recommendations biomarker_data user_lifestyle ck =
     [''Maintain a balanced diet rich in fruits, vegetables, and whole grains'',
      ''Engage in regular physical activity (at least 150 minutes per week)'',
      ''Maintain a healthy weight'',
      ''Avoid smoking and limit alcohol consumption'',
      ''Get adequate sleep (7-9 hours per night)'']
     @ (if dict_in ''glucose'' biomarker_data \<or> dict_in ''hba1c'' biomarker_data then
          [''Limit refined carbohydrates and sugary foods'',
           ''Monitor carbohydrate intake and consider portion control'']
        else [])
     @ (if list_ex (\<lambda>bm. dict_in bm biomarker_data)
             [''total_cholesterol'', ''ldl'', ''hdl'', ''triglycerides''] then
          [''Reduce saturated and trans fats in your diet'',
           ''Increase intake of omega-3 fatty acids'',
           ''Consider soluble fiber supplements'']
        else [])
     @ (if dict_in ''tsh'' biomarker_data then
          [''Ensure adequate iodine intake through diet'',
           ''Consider selenium-rich foods (Brazil nuts, fish)'']
        else [])
     @ (if dict_in ''vitamin_d'' biomarker_data then
          [''Get regular sun exposure (15-30 minutes daily)'',
           ''Consider vitamin D supplementation if deficient'']
        else [])"

definition generate_monitoring_recommendations :: "real dict \<Rightarrow> knowledge_ctx \<Rightarrow> string list" where
  "generate_monitoring_recommendations biomarker_data ck =
     [''Schedule regular follow-up lab tests as recommended by your healthcare provider'',
      ''Keep a record of your lab results to track trends over time'']
     @ (if dict_in ''glucose'' biomarker_data \<or> dict_in ''hba1c'' biomarker_data then
          [''Monitor blood glucose levels regularly if recommended by your doctor'',
           ''Consider HbA1c testing every 3-6 months'']
        else [])
     @ (if list_ex (\<lambda>bm. dict_in bm biomarker_data)
             [''total_cholesterol'', ''ldl'', ''hdl'', ''triglycerides''] then
          [''Monitor lipid profile every 6-12 months'']
        else [])
     @ (if dict_in ''tsh'' biomarker_data then
          [''Monitor thyroid function tests every 6-12 months'']
        else [])"

record pillar4 =
  p4_title :: string
  immediate_actions :: "string list"
  lifestyle_recommendations :: "string list"
  monitoring_recommendations :: "string list"
  medical_consultation_required :: bool

definition generate_recommendations ::
  "(real \<Rightarrow> string) \<Rightarrow> real dict \<Rightarrow> string \<Rightarrow> string \<Rightarrow> knowledge_ctx \<Rightarrow> pillar4" where
  "generate_recommendations fmt biomarker_data user_symptoms user_lifestyle ck =
     (let a0 = \<lparr>p4_title = ''Clear, Actionable Recommendations'',
                 immediate_actions = [],
                 lifestyle_recommendations = [],
                 monitoring_recommendations = [],
                 medical_consultation_required = False\<rparr>;
          critical_findings = identify_critical_findings fmt biomarker_data;
          a1 = (if critical_findings \<noteq> [] then
                  a0\<lparr>immediate_actions := immediate_actions a0 @ critical_findings,
                     medical_consultation_required := True\<rparr>
                else a0);
          a2 = a1\<lparr>lifestyle_recommendations :=
                     lifestyle_recommendations a1
                     @ generate_lifestyle_recommendations biomarker_data user_lifestyle ck\<rparr>;
          a3 = a2\<lparr>monitoring_recommendations :=
                     monitoring_recommendations a2
                     @ generate_monitoring_recommendations biomarker_data ck\<rparr>
      in a3)"

subsection \<open>The report\<close>

record analysis_report =
  disclaimer :: string
  timestamp :: string
  pillar_1_biomarker_interpretation :: pillar1
  pillar_2_symptom_correlation :: pillar2
  pillar_3_predictive_insights :: pillar3
  pillar_4_actionable_recommendations :: pillar4
  contextual_knowledge_used :: knowledge_ctx

text \<open>
  \<open>analyze_health_report\<close>. The parameter \<open>now\<close> is \<open>datetime.now().isoformat()\<close>. The
  entries of the dict literal are evaluated in their order, so an exception of the
  retrieval or of an earlier pillar is the exception of the call.
\<close>

definition analyze_health_report ::
  "health_analyzer \<Rightarrow> (real \<Rightarrow> string) \<Rightarrow> (string \<Rightarrow> real option) \<Rightarrow> string \<Rightarrow>
   real dict \<Rightarrow> string \<Rightarrow> string \<Rightarrow> py_error + analysis_report" where
  "analyze_health_report h fmt pyfloat now biomarker_data user_symptoms user_lifestyle =
     (case retrieve_context h fmt biomarker_data of
        Inl e \<Rightarrow> Inl e
      | Inr ck \<Rightarrow>
          (case analyze_biomarkers h fmt pyfloat biomarker_data ck of
             Inl e \<Rightarrow> Inl e
           | Inr p1 \<Rightarrow>
               (case correlate_symptoms_biomarkers fmt biomarker_data user_symptoms ck of
                  Inl e \<Rightarrow> Inl e
                | Inr p2 \<Rightarrow>
                    Inr \<lparr>disclaimer = medical_disclaimer h,
                         timestamp = now,
                         pillar_1_biomarker_interpretation = p1,
                         pillar_2_symptom_correlation = p2,
                         pillar_3_predictive_insights =
                           generate_predictive_insights fmt biomarker_data ck,
                         pillar_4_actionable_recommendations =
                           generate_recommendations fmt biomarker_data user_symptoms
                             user_lifestyle ck,
                         contextual_knowledge_used = ck\<rparr>)))"

section \<open>Retrieval before the index is built\<close>

text \<open>
  C7: for every query and every \<open>top_k\<close>, retrieval on a knowledge base whose vector index
  or whose embedding model is absent returns the empty list of results, and it returns (the
  result is a value, not an exception).
\<close>

theorem retrieve_unbuilt_empty:
  "vector_index kb = None \<or> embedding_model kb = None \<Longrightarrow>
   retrieve_contextual_knowledge kb query top_k = Inr []"
  by (auto simp: retrieve_contextual_knowledge_def split: option.splits)

theorem retrieve_unbuilt_empty_witness:
  "(vector_index \<lparr>reference_ranges = [], knowledge_texts = [],
       embedding_model = Some (\<lambda>s. [1]), vector_index = None\<rparr> = None
    \<or> embedding_model \<lparr>reference_ranges = [], knowledge_texts = [],
       embedding_model = Some (\<lambda>s. [1]), vector_index = None\<rparr> = None)
   \<and> retrieve_contextual_knowledge \<lparr>reference_ranges = [], knowledge_texts = [],
       embedding_model = Some (\<lambda>s. [1]), vector_index = None\<rparr> ''tsh'' 5 = Inr []"
  using retrieve_unbuilt_empty
    [of "\<lparr>reference_ranges = [], knowledge_texts = [],
          embedding_model = Some (\<lambda>s. [1]), vector_index = None\<rparr>" "''tsh''" 5]
  by simp

section \<open>Substrings\<close>

lemma starts_with_append: "starts_with (sub @ q) sub"
  by (induction sub) auto

lemma contains_here: "contains (sub @ q) sub"
proof (cases "sub @ q")
  case Nil
  then show ?thesis by simp
next
  case (Cons x xs)
  have "starts_with (sub @ q) sub" by (rule starts_with_append)
  then show ?thesis using Cons by simp
qed

lemma contains_append: "contains (p @ sub @ q) sub"
  by (induction p) (auto simp: contains_here)

section \<open>The cardiovascular assessor\<close>

text \<open>
  C5: for every biomarker map the cardiovascular assessor gives no entry exactly when none
  of total\_cholesterol at least 240, ldl at least 160, hdl below 40 holds for a biomarker
  that is present, and every entry it gives has the risk level \<open>moderate\<close>, never \<open>high\<close>.
\<close>

theorem cardiovascular_moderate_or_absent:
  "(assess_cardiovascular_risk fmt d ck = None \<longleftrightarrow>
      \<not> ((\<exists>tc. map_of d ''total_cholesterol'' = Some tc \<and> tc \<ge> 240)
         \<or> (\<exists>ldl. map_of d ''ldl'' = Some ldl \<and> ldl \<ge> 160)
         \<or> (\<exists>hdl. map_of d ''hdl'' = Some hdl \<and> hdl < 40)))
   \<and> (\<forall>r. assess_cardiovascular_risk fmt d ck = Some r \<longrightarrow>
          risk_level r = ''moderate'' \<and> risk_level r \<noteq> ''high'')"
  by (auto simp: assess_cardiovascular_risk_def Let_def split: option.splits if_splits)

theorem cardiovascular_moderate_or_absent_witness:
  "assess_cardiovascular_risk (\<lambda>x. ''170'') [(''ldl'', 170)] [] =
     Some \<lparr>condition = ''Cardiovascular Disease'', risk_level = ''moderate'',
           risk_factors = [''LDL cholesterol 170 mg/dL is high''],
           r_contextual_insights = []\<rparr>
   \<and> risk_level \<lparr>condition = ''Cardiovascular Disease'', risk_level = ''moderate'',
           risk_factors = [''LDL cholesterol 170 mg/dL is high''],
           r_contextual_insights = []\<rparr> = ''moderate''
   \<and> assess_cardiovascular_risk (\<lambda>x. ''170'') [(''hdl'', 55)] [] = None"
  using cardiovascular_moderate_or_absent [of "\<lambda>x. ''170''" "[(''ldl'', 170)]" "[]"]
    cardiovascular_moderate_or_absent [of "\<lambda>x. ''170''" "[(''hdl'', 55)]" "[]"]
  by (simp add: assess_cardiovascular_risk_def get_or_empty_def)

section \<open>The diabetes assessor\<close>

text \<open>
  C3 says that with both glucose and hba1c present the risk level is the more severe of
  the two bands. The assessor assigns \<open>risk_level\<close> in the glucose block and assigns it
  again in the hba1c block, so the hba1c band replaces the glucose band whenever it
  fires: glucose 130 (diabetes band, high) with hba1c 6.0 (prediabetes band, moderate)
  is reported as \<open>moderate\<close>, next to the risk factor that says diabetes.
\<close>

theorem diabetes_hba1c_band_replaces_glucose_band:
  "assess_diabetes_risk fmt [(''glucose'', 130), (''hba1c'', 6.0)] ck =
     Some \<lparr>condition = ''Diabetes/Pre-diabetes'', risk_level = ''moderate'',
           risk_factors = [''Fasting glucose '' @ fmt 130 @ '' mg/dL indicates diabetes'',
                           ''HbA1c '' @ fmt 6.0 @ ''% indicates prediabetes''],
           r_contextual_insights = take 2 (get_or_empty ck ''general'')\<rparr>"
  by (simp add: assess_diabetes_risk_def)

section \<open>Critical findings\<close>

lemma critical_finding_member:
  "(b, v) \<in> set d \<Longrightarrow> map_of critical_thresholds b = Some t \<Longrightarrow> t \<le> v \<Longrightarrow>
   (''CRITICAL: '' @ b @ '' level of '' @ fmt v @ '' requires immediate medical attention'')
     \<in> set (identify_critical_findings fmt d)"
  by (induction d) (auto split: option.splits)

lemma critical_finding_cause:
  "identify_critical_findings fmt d \<noteq> [] \<Longrightarrow>
   \<exists>b v t. (b, v) \<in> set d \<and> map_of critical_thresholds b = Some t \<and> t \<le> v"
proof (induction d)
  case Nil
  then show ?case by simp
next
  case (Cons p d)
  obtain b v where p: "p = (b, v)" by (cases p)
  show ?case
  proof (cases "\<exists>t. map_of critical_thresholds b = Some t \<and> t \<le> v")
    case True
    then show ?thesis using p by auto
  next
    case False
    then have "identify_critical_findings fmt (p # d) = identify_critical_findings fmt d"
      using p by (auto split: option.splits)
    then show ?thesis using Cons by auto
  qed
qed

lemma no_critical_finding:
  "(identify_critical_findings fmt d = []) \<longleftrightarrow>
   \<not> (\<exists>b v t. (b, v) \<in> set d \<and> map_of critical_thresholds b = Some t \<and> t \<le> v)"
  using critical_finding_cause[of fmt d] critical_finding_member[of _ _ d _ fmt] by fastforce

lemma critical_threshold_table:
  "(\<exists>t. map_of critical_thresholds b = Some t \<and> t \<le> v) \<longleftrightarrow>
   (b = ''glucose'' \<and> 300 \<le> v \<or> b = ''tsh'' \<and> 20 \<le> v
    \<or> b = ''creatinine'' \<and> 3.0 \<le> v \<or> b = ''crp'' \<and> 10.0 \<le> v)"
  by (auto simp: critical_thresholds_def)

text \<open>
  C4: \<open>medical_consultation_required\<close> is true exactly when some item of the biomarker map
  is glucose at least 300, tsh at least 20, creatinine at least 3.0 or crp at least 10.0;
  for every such item \<open>immediate_actions\<close> holds the entry written for it, which contains
  the name of the biomarker; with no such item the flag is false and \<open>immediate_actions\<close>
  is empty.
\<close>

theorem consultation_required_iff_critical:
  "(medical_consultation_required (generate_recommendations fmt d symptoms lifestyle ck) \<longleftrightarrow>
      (\<exists>b v. (b, v) \<in> set d \<and>
         (b = ''glucose'' \<and> 300 \<le> v \<or> b = ''tsh'' \<and> 20 \<le> v
          \<or> b = ''creatinine'' \<and> 3.0 \<le> v \<or> b = ''crp'' \<and> 10.0 \<le> v)))
   \<and> (\<forall>b v. (b, v) \<in> set d \<and>
         (b = ''glucose'' \<and> 300 \<le> v \<or> b = ''tsh'' \<and> 20 \<le> v
          \<or> b = ''creatinine'' \<and> 3.0 \<le> v \<or> b = ''crp'' \<and> 10.0 \<le> v) \<longrightarrow>
         (\<exists>a. a \<in> set (immediate_actions (generate_recommendations fmt d symptoms lifestyle ck))
            \<and> a = ''CRITICAL: '' @ b @ '' level of '' @ fmt v
                    @ '' requires immediate medical attention''
            \<and> contains a b))
   \<and> (\<not> (\<exists>b v. (b, v) \<in> set d \<and>
         (b = ''glucose'' \<and> 300 \<le> v \<or> b = ''tsh'' \<and> 20 \<le> v
          \<or> b = ''creatinine'' \<and> 3.0 \<le> v \<or> b = ''crp'' \<and> 10.0 \<le> v)) \<longrightarrow>
         \<not> medical_consultation_required (generate_recommendations fmt d symptoms lifestyle ck)
         \<and> immediate_actions (generate_recommendations fmt d symptoms lifestyle ck) = [])"
proof -
  let ?rec = "generate_recommendations fmt d symptoms lifestyle ck"
  let ?cf = "identify_critical_findings fmt d"
  define breach :: "string \<Rightarrow> real \<Rightarrow> bool" where
    "breach = (\<lambda>b v. b = ''glucose'' \<and> 300 \<le> v \<or> b = ''tsh'' \<and> 20 \<le> v
          \<or> b = ''creatinine'' \<and> 3.0 \<le> v \<or> b = ''crp'' \<and> 10.0 \<le> v)"
  have tbl: "\<And>b v. (\<exists>t. map_of critical_thresholds b = Some t \<and> t \<le> v) \<longleftrightarrow> breach b v"
    unfolding breach_def by (rule critical_threshold_table)
  have flag: "medical_consultation_required ?rec = (?cf \<noteq> [])"
    by (simp add: generate_recommendations_def Let_def)
  have acts: "immediate_actions ?rec = ?cf"
    by (simp add: generate_recommendations_def Let_def)
  have nil: "(?cf = []) \<longleftrightarrow> \<not> (\<exists>b v. (b, v) \<in> set d \<and> breach b v)"
    using no_critical_finding[of fmt d] tbl by blast
  have mem: "\<And>b v. (b, v) \<in> set d \<Longrightarrow> breach b v \<Longrightarrow>
      (''CRITICAL: '' @ b @ '' level of '' @ fmt v @ '' requires immediate medical attention'')
        \<in> set ?cf"
    using critical_finding_member tbl by blast
  have c: "\<And>b v. contains (''CRITICAL: '' @ b @ '' level of '' @ fmt v
                               @ '' requires immediate medical attention'') b"
    by (rule contains_append)
  have main:
    "(medical_consultation_required ?rec \<longleftrightarrow> (\<exists>b v. (b, v) \<in> set d \<and> breach b v))
     \<and> (\<forall>b v. (b, v) \<in> set d \<and> breach b v \<longrightarrow>
           (\<exists>a. a \<in> set (immediate_actions ?rec)
              \<and> a = ''CRITICAL: '' @ b @ '' level of '' @ fmt v
                      @ '' requires immediate medical attention''
              \<and> contains a b))
     \<and> (\<not> (\<exists>b v. (b, v) \<in> set d \<and> breach b v) \<longrightarrow>
           \<not> medical_consultation_required ?rec \<and> immediate_actions ?rec = [])"
    unfolding flag acts using nil mem c by blast
  show ?thesis
    using main unfolding breach_def .
qed

theorem consultation_required_iff_critical_witness:
  "(''glucose'', 305) \<in> set [(''glucose'', 305), (''hdl'', 50::real)]
   \<and> medical_consultation_required
       (generate_recommendations (\<lambda>x. ''305'') [(''glucose'', 305), (''hdl'', 50)] [] [] [])
   \<and> immediate_actions
       (generate_recommendations (\<lambda>x. ''305'') [(''glucose'', 305), (''hdl'', 50)] [] [] [])
     = [''CRITICAL: glucose level of 305 requires immediate medical attention'']
   \<and> contains ''CRITICAL: glucose level of 305 requires immediate medical attention'' ''glucose''
   \<and> \<not> medical_consultation_required
       (generate_recommendations (\<lambda>x. ''299'') [(''glucose'', 299)] [] [] [])
   \<and> immediate_actions
       (generate_recommendations (\<lambda>x. ''299'') [(''glucose'', 299)] [] [] []) = []"
  using consultation_required_iff_critical
      [of "\<lambda>x. ''305''" "[(''glucose'', 305), (''hdl'', 50)]" "[]" "[]" "[]"]
    consultation_required_iff_critical
      [of "\<lambda>x. ''299''" "[(''glucose'', 299)]" "[]" "[]" "[]"]
  by (simp add: generate_recommendations_def critical_thresholds_def)

section \<open>Symptom text\<close>

lemma strip_all_space:
  assumes "\<forall>c \<in> set s. isspace c"
  shows "strip s = []"
proof -
  have d: "dropWhile isspace s = []"
    using assms by (induction s) auto
  show ?thesis
    unfolding strip_def strip_with_def d by simp
qed

text \<open>
  C10: for every symptom text made of whitespace only (the empty text included) and every
  biomarker map, the symptom pillar is the one for no symptoms: the note
  \<open>No symptoms provided for correlation analysis\<close>, no correlations, and
  \<open>symptoms_provided\<close> false.
\<close>

theorem whitespace_symptoms_not_provided:
  "\<forall>c \<in> set s. isspace c \<Longrightarrow>
   correlate_symptoms_biomarkers fmt d s ck =
     Inr \<lparr>p2_title = ''Correlation Between Symptoms and Biomarker Trends'',
          correlations = [],
          p2_symptom_analysis =
            \<lparr>symptoms_provided = False, raw_symptoms = None, detected_categories = None\<rparr>,
          p2_note = Some ''No symptoms provided for correlation analysis''\<rparr>"
  by (simp add: correlate_symptoms_biomarkers_def analyze_symptoms_def strip_all_space)

theorem whitespace_symptoms_not_provided_witness:
  "list_all isspace [CHR '' '', CHR 0x09, CHR 0x0A]
   \<and> correlate_symptoms_biomarkers (\<lambda>x. ''6.2'') [(''tsh'', 6.2)]
        [CHR '' '', CHR 0x09, CHR 0x0A] [] =
     Inr \<lparr>p2_title = ''Correlation Between Symptoms and Biomarker Trends'',
          correlations = [],
          p2_symptom_analysis =
            \<lparr>symptoms_provided = False, raw_symptoms = None, detected_categories = None\<rparr>,
          p2_note = Some ''No symptoms provided for correlation analysis''\<rparr>"
  using whitespace_symptoms_not_provided
      [of "[CHR '' '', CHR 0x09, CHR 0x0A]" "\<lambda>x. ''6.2''" "[(''tsh'', 6.2)]" "[]"]
  by (simp add: isspace_def whitespace_def)

section \<open>Retrieval on a built index\<close>

lemma collect_results_total:
  "\<forall>(s, i) \<in> set hits. - int (length texts) \<le> i \<and> i < int (length texts) \<Longrightarrow>
   \<exists>rs. collect_results texts hits = Inr rs \<and> length rs = length hits
        \<and> map relevance_score rs = map fst hits"
proof (induction hits)
  case Nil
  then show ?case by simp
next
  case (Cons h hits)
  obtain s i where h: "h = (s, i)" by (cases h)
  from Cons.prems h have r: "- int (length texts) \<le> i" "i < int (length texts)" by auto
  then obtain it where it: "py_index texts i = Inr it"
    by (cases "0 \<le> i") (auto simp: py_index_def)
  from Cons obtain rs where rs: "collect_results texts hits = Inr rs" "length rs = length hits"
     "map relevance_score rs = map fst hits"
    by auto
  show ?case using h r it rs by simp
qed

lemma collect_results_sorted:
  "collect_results texts hits = Inr rs \<Longrightarrow> sorted_wrt (\<ge>) (map fst hits) \<Longrightarrow>
   sorted_wrt (\<ge>) (map relevance_score rs) \<and> set (map relevance_score rs) \<subseteq> set (map fst hits)
   \<and> length rs \<le> length hits"
proof (induction hits arbitrary: rs)
  case Nil
  then show ?case by simp
next
  case (Cons h hits)
  obtain s i where h: "h = (s, i)" by (cases h)
  show ?case
  proof (cases "i < int (length texts)")
    case True
    with Cons.prems h obtain it rs' where r: "py_index texts i = Inr it"
       "collect_results texts hits = Inr rs'" "rs = \<lparr>item = it, relevance_score = s\<rparr> # rs'"
      by (auto split: sum.splits)
    from Cons.IH[OF r(2)] Cons.prems(2) h
    have ih: "sorted_wrt (\<ge>) (map relevance_score rs')"
      "set (map relevance_score rs') \<subseteq> set (map fst hits)" "length rs' \<le> length hits"
      and le: "\<forall>x \<in> set (map fst hits). x \<le> s"
      by auto
    from ih(2) le have "\<forall>x \<in> set (map relevance_score rs'). x \<le> s" by blast
    with ih r(3) h show ?thesis by auto
  next
    case False
    with Cons.prems h have "collect_results texts hits = Inr rs" by simp
    from Cons.IH[OF this] Cons.prems(2) h show ?thesis by auto
  qed
qed

lemma index_flat_ip_labels:
  assumes a: "(s, i) \<in> set (index_flat_ip_search xb q k)"
  shows "i = - 1 \<or> (0 \<le> i \<and> i < int (length xb))"
proof -
  let ?scored = "map (\<lambda>(i, x). (inner_product q x, int i)) (enumerate 0 xb)"
  have sc: "\<And>p. p \<in> set ?scored \<Longrightarrow> 0 \<le> snd p \<and> snd p < int (length xb)"
    by (auto simp: in_set_enumerate_eq)
  have tk: "\<And>p. p \<in> set (take (nat k) (sort_key (\<lambda>(s, i). - s) ?scored)) \<Longrightarrow> p \<in> set ?scored"
    using in_set_takeD by fastforce
  from a have "(s, i) \<in> set (take (nat k) (sort_key (\<lambda>(s, i). - s) ?scored)) \<or> i = - 1"
    by (auto simp: index_flat_ip_search_def Let_def)
  then show ?thesis
  proof
    assume "(s, i) \<in> set (take (nat k) (sort_key (\<lambda>(s, i). - s) ?scored))"
    from sc[OF tk[OF this]] show ?thesis by simp
  next
    assume "i = - 1"
    then show ?thesis by simp
  qed
qed

lemma index_flat_ip_length: "0 \<le> k \<Longrightarrow> length (index_flat_ip_search xb q k) = nat k"
  by (auto simp: index_flat_ip_search_def Let_def)

text \<open>
  With a search that gives at most \<open>k\<close> hits, all with labels of items, no label twice and
  the scores in non-increasing order, retrieval returns at most \<open>min(k, n)\<close> results in
  non-increasing order of score.
\<close>

lemma retrieve_bounded_when_index_clamps:
  assumes "embedding_model kb = Some enc" "vector_index kb = Some search"
    and lab: "\<forall>(s, i) \<in> set (search (normalize_L2 (enc q)) k).
                0 \<le> i \<and> i < int (length (knowledge_texts kb))"
    and dis: "distinct (map snd (search (normalize_L2 (enc q)) k))"
    and len: "length (search (normalize_L2 (enc q)) k) \<le> nat k"
    and srt: "sorted_wrt (\<ge>) (map fst (search (normalize_L2 (enc q)) k))"
  shows "\<exists>rs. retrieve_contextual_knowledge kb q k = Inr rs
           \<and> length rs \<le> min (nat k) (length (knowledge_texts kb))
           \<and> sorted_wrt (\<ge>) (map relevance_score rs)"
proof -
  let ?hits = "search (normalize_L2 (enc q)) k" and ?n = "length (knowledge_texts kb)"
  have "\<forall>(s, i) \<in> set ?hits. - int ?n \<le> i \<and> i < int ?n"
    using lab by fastforce
  from collect_results_total[OF this] obtain rs where
    rs: "collect_results (knowledge_texts kb) ?hits = Inr rs" "length rs = length ?hits"
    by blast
  have "set (map snd ?hits) \<subseteq> int ` {0..<?n}"
  proof
    fix i assume "i \<in> set (map snd ?hits)"
    then obtain s where "(s, i) \<in> set ?hits" by auto
    with lab have "0 \<le> i \<and> i < int ?n" by blast
    then have "i = int (nat i) \<and> nat i < ?n" by auto
    then show "i \<in> int ` {0..<?n}" by (metis atLeastLessThan_iff image_eqI le0)
  qed
  then have "card (set (map snd ?hits)) \<le> card (int ` {0..<?n})"
    by (intro card_mono) auto
  also have "\<dots> \<le> ?n" using card_image_le[of "{0..<?n}" int] by simp
  finally have "length ?hits \<le> ?n"
    using distinct_card[OF dis] by simp
  with len rs(2) have "length rs \<le> min (nat k) ?n" by simp
  moreover have "sorted_wrt (\<ge>) (map relevance_score rs)"
    using collect_results_sorted[OF rs(1) srt] by blast
  ultimately show ?thesis
    using rs(1) assms(1,2) by (simp add: retrieve_contextual_knowledge_def)
qed

text \<open>
  C2 says that retrieval returns at most \<open>min(k, n)\<close> results over a corpus of \<open>n\<close> items.
  The loop keeps a hit when \<open>idx < len(self.knowledge_texts)\<close>; the label \<open>-1\<close> that fills
  the row when \<open>k > n\<close> passes this test, and \<open>self.knowledge_texts[-1]\<close> is the last
  item. So over a flat inner-product index of \<open>n \<ge> 1\<close> vectors retrieval returns exactly
  \<open>k\<close> results for every \<open>k \<ge> 0\<close>, which is more than \<open>min(k, n)\<close> when \<open>k > n\<close>.
\<close>

theorem retrieve_returns_top_k_results:
  assumes "length (knowledge_texts kb) = length xb" "xb \<noteq> []" "0 \<le> k"
    "embedding_model kb = Some enc" "vector_index kb = Some (index_flat_ip_search xb)"
  shows "\<exists>rs. retrieve_contextual_knowledge kb q k = Inr rs \<and> length rs = nat k"
proof -
  let ?hits = "index_flat_ip_search xb (normalize_L2 (enc q)) k"
  have "\<forall>(s, i) \<in> set ?hits. - int (length (knowledge_texts kb)) \<le> i \<and> i < int (length (knowledge_texts kb))"
  proof (clarify)
    fix s i assume "(s, i) \<in> set ?hits"
    from index_flat_ip_labels[OF this] assms(1,2)
    show "- int (length (knowledge_texts kb)) \<le> i \<and> i < int (length (knowledge_texts kb))"
      by (cases xb) auto
  qed
  from collect_results_total[OF this] index_flat_ip_length[OF assms(3)]
  show ?thesis using assms(4,5) by (auto simp: retrieve_contextual_knowledge_def)
qed

theorem retrieve_returns_top_k_results_witness:
  "retrieve_contextual_knowledge
     \<lparr>reference_ranges = [],
      knowledge_texts = [\<lparr>text_of = ''a'', type_of = ''reference_range'', tags = []\<rparr>,
                         \<lparr>text_of = ''b'', type_of = ''reference_range'', tags = []\<rparr>],
      embedding_model = Some (\<lambda>s. [0, 1]),
      vector_index = Some (index_flat_ip_search [[1, 0], [0, 1]])\<rparr>
     ''tsh'' 3 =
    Inr [\<lparr>item = \<lparr>text_of = ''b'', type_of = ''reference_range'', tags = []\<rparr>,
          relevance_score = 1\<rparr>,
         \<lparr>item = \<lparr>text_of = ''a'', type_of = ''reference_range'', tags = []\<rparr>,
          relevance_score = 0\<rparr>,
         \<lparr>item = \<lparr>text_of = ''b'', type_of = ''reference_range'', tags = []\<rparr>,
          relevance_score = float32_lowest\<rparr>]
   \<and> (\<exists>rs. retrieve_contextual_knowledge
          \<lparr>reference_ranges = [],
           knowledge_texts = [\<lparr>text_of = ''a'', type_of = ''reference_range'', tags = []\<rparr>,
                              \<lparr>text_of = ''b'', type_of = ''reference_range'', tags = []\<rparr>],
           embedding_model = Some (\<lambda>s. [0, 1]),
           vector_index = Some (index_flat_ip_search [[1, 0], [0, 1]])\<rparr>
          ''tsh'' 3 = Inr rs \<and> length rs = 3 \<and> min 3 2 < length rs)"
  using retrieve_returns_top_k_results
    [of "\<lparr>reference_ranges = [],
          knowledge_texts = [\<lparr>text_of = ''a'', type_of = ''reference_range'', tags = []\<rparr>,
                             \<lparr>text_of = ''b'', type_of = ''reference_range'', tags = []\<rparr>],
          embedding_model = Some (\<lambda>s. [0, 1]),
          vector_index = Some (index_flat_ip_search [[1, 0], [0, 1]])\<rparr>"
        "[[1, 0], [0, 1]]" 3 "\<lambda>s. [0, 1]" "''tsh''"]
  by (simp add: retrieve_contextual_knowledge_def py_index_def index_flat_ip_search_def
      normalize_L2_def inner_product_def enumerate_eq_zip float32_lowest_def)

section \<open>Symptom categories\<close>

text \<open>
  C6 says that a category is detected exactly when one of its keywords is a token of the
  lowercased text. \<open>_analyze_symptoms\<close> computes the tokens and does not use them: it
  tests each keyword as a substring of the lowercased text. On \<open>I love painting\<close> the
  tokens are \<open>i\<close>, \<open>love\<close>, \<open>painting\<close>, none of them a keyword, and the category
  \<open>cardiovascular\<close> is detected through the keyword \<open>pain\<close> inside \<open>painting\<close>.
\<close>

theorem substring_keyword_detected:
  "analyze_symptoms ''I love painting'' =
     \<lparr>symptoms_provided = True, raw_symptoms = Some ''I love painting'',
      detected_categories = Some [''cardiovascular'']\<rparr>
   \<and> split_ws (lower ''I love painting'') = [''i'', ''love'', ''painting'']
   \<and> map_of common_symptoms ''cardiovascular''
       = Some [''chest'', ''pain'', ''heart'', ''palpitations'']"
  by code_simp

section \<open>The report for an empty input\<close>

text \<open>
  C8: with no biomarkers, no symptoms and no lifestyle text, and a knowledge base on which
  the general retrieval returns, \<open>analyze_health_report\<close> returns a report with no
  biomarker entries in pillar 1, no risk assessments and the overall risk level \<open>low\<close> in
  pillar 3, and in pillar 4 the five general lifestyle recommendations, the two general
  monitoring recommendations, no immediate actions and no consultation required.
\<close>

theorem empty_input_report:
  "retrieve_contextual_knowledge (kb_of h) ''health risk assessment biomarker patterns'' 5
     = Inr g \<Longrightarrow>
   analyze_health_report h fmt pyfloat now [] [] [] =
     Inr \<lparr>disclaimer = medical_disclaimer h, timestamp = now,
          pillar_1_biomarker_interpretation =
            \<lparr>p1_title = ''Interpretation of Key Biomarkers'', biomarkers = []\<rparr>,
          pillar_2_symptom_correlation =
            \<lparr>p2_title = ''Correlation Between Symptoms and Biomarker Trends'',
             correlations = [],
             p2_symptom_analysis =
               \<lparr>symptoms_provided = False, raw_symptoms = None, detected_categories = None\<rparr>,
             p2_note = Some ''No symptoms provided for correlation analysis''\<rparr>,
          pillar_3_predictive_insights =
            \<lparr>p3_title = ''Predictive Insights on Potential Health Risks'',
             risk_assessments = [], overall_risk_level = ''low''\<rparr>,
          pillar_4_actionable_recommendations =
            \<lparr>p4_title = ''Clear, Actionable Recommendations'',
             immediate_actions = [],
             lifestyle_recommendations =
               [''Maintain a balanced diet rich in fruits, vegetables, and whole grains'',
                ''Engage in regular physical activity (at least 150 minutes per week)'',
                ''Maintain a healthy weight'',
                ''Avoid smoking and limit alcohol consumption'',
                ''Get adequate sleep (7-9 hours per night)''],
             monitoring_recommendations =
               [''Schedule regular follow-up lab tests as recommended by your healthcare provider'',
                ''Keep a record of your lab results to track trends over time''],
             medical_consultation_required = False\<rparr>,
          contextual_knowledge_used = [(''general'', g)]\<rparr>"
  by (simp add: analyze_health_report_def retrieve_context_def analyze_biomarkers_def
      correlate_symptoms_biomarkers_def analyze_symptoms_def strip_def strip_with_def
      generate_predictive_insights_def generate_recommendations_def dict_in_def
      generate_lifestyle_recommendations_def generate_monitoring_recommendations_def
      calculate_overall_risk_level_def)

theorem empty_input_report_witness:
  "retrieve_contextual_knowledge
     (kb_of \<lparr>kb_of = \<lparr>reference_ranges = [(''tsh'', ''0.4-4.5'')],
                       knowledge_texts = [\<lparr>text_of = ''Reference range for tsh: 0.4-4.5'',
                                           type_of = ''reference_range'',
                                           tags = [(''biomarker'', ''tsh'')]\<rparr>],
                       embedding_model = Some (\<lambda>s. [1]),
                       vector_index = Some (\<lambda>q k. [(0.5, 0)])\<rparr>,
             medical_disclaimer = ''disclaimer''\<rparr>)
     ''health risk assessment biomarker patterns'' 5
     = Inr [\<lparr>item = \<lparr>text_of = ''Reference range for tsh: 0.4-4.5'',
                       type_of = ''reference_range'', tags = [(''biomarker'', ''tsh'')]\<rparr>,
             relevance_score = 0.5\<rparr>]
   \<and> (case analyze_health_report
            \<lparr>kb_of = \<lparr>reference_ranges = [(''tsh'', ''0.4-4.5'')],
                       knowledge_texts = [\<lparr>text_of = ''Reference range for tsh: 0.4-4.5'',
                                           type_of = ''reference_range'',
                                           tags = [(''biomarker'', ''tsh'')]\<rparr>],
                       embedding_model = Some (\<lambda>s. [1]),
                       vector_index = Some (\<lambda>q k. [(0.5, 0)])\<rparr>,
             medical_disclaimer = ''disclaimer''\<rparr>
            (\<lambda>x. []) (\<lambda>s. None) ''2026-01-01T00:00:00'' [] [] [] of
         Inl e \<Rightarrow> False
       | Inr r \<Rightarrow>
           biomarkers (pillar_1_biomarker_interpretation r) = []
           \<and> risk_assessments (pillar_3_predictive_insights r) = []
           \<and> overall_risk_level (pillar_3_predictive_insights r) = ''low''
           \<and> length (lifestyle_recommendations (pillar_4_actionable_recommendations r)) = 5
           \<and> length (monitoring_recommendations (pillar_4_actionable_recommendations r)) = 2
           \<and> immediate_actions (pillar_4_actionable_recommendations r) = []
           \<and> \<not> medical_consultation_required (pillar_4_actionable_recommendations r))"
  using empty_input_report
    [of "\<lparr>kb_of = \<lparr>reference_ranges = [(''tsh'', ''0.4-4.5'')],
                     knowledge_texts = [\<lparr>text_of = ''Reference range for tsh: 0.4-4.5'',
                                         type_of = ''reference_range'',
                                         tags = [(''biomarker'', ''tsh'')]\<rparr>],
                     embedding_model = Some (\<lambda>s. [1]),
                     vector_index = Some (\<lambda>q k. [(0.5, 0)])\<rparr>,
           medical_disclaimer = ''disclaimer''\<rparr>"
        "[\<lparr>item = \<lparr>text_of = ''Reference range for tsh: 0.4-4.5'',
                       type_of = ''reference_range'', tags = [(''biomarker'', ''tsh'')]\<rparr>,
             relevance_score = 0.5\<rparr>]"
        "\<lambda>x. []" "\<lambda>s. None" "''2026-01-01T00:00:00''"]
  by (simp add: retrieve_contextual_knowledge_def py_index_def)

section \<open>Facts about the string methods\<close>

lemma split_sep_nonempty: "split_sep c s \<noteq> []"
  by (induction s) (auto split: list.splits)

lemma split_sep_Cons:
  "split_sep c (x # xs) =
     (if x = c then [] # split_sep c xs
      else (x # hd (split_sep c xs)) # tl (split_sep c xs))"
  using split_sep_nonempty[of c xs] by (cases "split_sep c xs") auto

declare split_sep.simps(2) [simp del]
declare split_sep_Cons [simp]









declare split_sep_Cons [simp del]
declare split_sep.simps(2) [simp]

lemma split_ws_all_space: "(split_ws s = []) \<longleftrightarrow> (\<forall>c \<in> set s. isspace c)"
  by (induction s) (auto split: list.splits)

lemma split_ws_Cons:
  "split_ws (x # xs) =
     (if isspace x then split_ws xs
      else (case xs of
              [] \<Rightarrow> [[x]]
            | y # _ \<Rightarrow> if isspace y then [x] # split_ws xs
                       else (x # hd (split_ws xs)) # tl (split_ws xs)))"
proof (cases xs)
  case Nil
  then show ?thesis by simp
next
  case (Cons y ys)
  show ?thesis
  proof (cases "isspace y")
    case True
    then show ?thesis using Cons by simp
  next
    case False
    have "y \<in> set xs" using Cons by simp
    with False have "split_ws xs \<noteq> []" using split_ws_all_space[of xs] by blast
    then obtain w ws where "split_ws xs = w # ws" by (cases "split_ws xs") auto
    then show ?thesis using Cons False by simp
  qed
qed

declare split_ws.simps(2) [simp del]
declare split_ws_Cons [simp]






declare split_ws_Cons [simp del]
declare split_ws.simps(2) [simp]

section \<open>Reference ranges\<close>





lemma isspace_dquote [simp]: "\<not> isspace dquote"
  by (simp add: isspace_def whitespace_def dquote_def)

lemma isspace_comma [simp]: "\<not> isspace CHR '',''"
  by (simp add: isspace_def whitespace_def)












section \<open>Classification against a reference range\<close>















end
